theory Spec2Isabelle
  imports Main
begin

text \<open>
  A shallow embedding of parts of PETRARCH, the event coder: from \<open>petrarch.py\<close> the
  assembly of events (\<open>make_event_strings\<close>, \<open>get_loccodes\<close>), the resolution of
  entities (\<open>check_NEphrase\<close>, \<open>actor_phrase_match\<close>, \<open>get_actor_code\<close>), the discard
  test (\<open>check_discards\<close>) and the balance of the token sequence (\<open>check_balance\<close>, the
  end of \<open>read_TreeBank\<close>, \<open>check_commas\<close>); from \<open>PETRreader.py\<close> the ordinal dates
  and the readers of the actor and the verb dictionary. A Python function becomes a
  function of the same name; the globals it reads are arguments, the globals it assigns
  are returned, and an exception it raises is the \<open>Inl\<close> of its result.
\<close>

section \<open>Python strings and lists\<close>

text \<open>
  Strings are \<^typ>\<open>string\<close>; a Python list of strings is a \<^typ>\<open>string list\<close>.
  Characters are bytes, and the tests on characters (\<open>isdigit\<close>, \<open>isalpha\<close>, blanks,
  \<open>upper\<close>) are those of ASCII. Logging and printing are left out of the model, except
  for the warnings of the verb dictionary reader: they change none of the values below.
\<close>

datatype error =
    HasParseError | IndexError | ValueError | KeyError | NameError | TypeError
  | UnbalancedTree | IrregularPattern | DateError

text \<open>\<open>s.find(sub)\<close>: the first position where \<open>sub\<close> starts, \<open>None\<close> for -1.\<close>

primrec str_find :: "string \<Rightarrow> string \<Rightarrow> nat option" where
  "str_find sub [] = (if sub = [] then Some 0 else None)"
| "str_find sub (c # cs) =
     (if take (length sub) (c # cs) = sub then Some 0
      else map_option Suc (str_find sub cs))"

text \<open>\<open>sub in s\<close> for strings.\<close>

definition contains :: "string \<Rightarrow> string \<Rightarrow> bool" where
  "contains sub s = (str_find sub s \<noteq> None)"

definition py_find :: "string \<Rightarrow> string \<Rightarrow> int" where
  "py_find sub s = (case str_find sub s of None \<Rightarrow> - 1 | Some i \<Rightarrow> int i)"

text \<open>\<open>s.partition(sep)\<close> for a non-empty separator.\<close>

definition partition_str :: "string \<Rightarrow> string \<Rightarrow> string \<times> string \<times> string" where
  "partition_str sep s =
     (case str_find sep s of
        None \<Rightarrow> (s, [], [])
      | Some i \<Rightarrow> (take i s, sep, drop (i + length sep) s))"

text \<open>\<open>s.split(c)\<close> with a one-character separator.\<close>

primrec split_on :: "char \<Rightarrow> string \<Rightarrow> string list" where
  "split_on c [] = [[]]"
| "split_on c (x # xs) =
     (if x = c then [] # split_on c xs
      else (case split_on c xs of
              [] \<Rightarrow> [[x]]
            | w # ws \<Rightarrow> (x # w) # ws))"

text \<open>\<open>xs[i]\<close>: negative indices count from the end, out of range raises IndexError.\<close>

definition py_index :: "'a list \<Rightarrow> int \<Rightarrow> 'a option" where
  "py_index xs i =
     (if 0 \<le> i \<and> i < int (length xs) then Some (xs ! nat i)
      else if i < 0 \<and> - int (length xs) \<le> i then Some (xs ! nat (int (length xs) + i))
      else None)"

section \<open>Configuration and coder state\<close>

text \<open>
  The constants of PETRglobals that the coder reads. The module PETRglobals is not part
  of the sources at hand, so its values are parameters.
\<close>

record globals =
  CodePrimer :: string
  RootPrimer :: string
  TextPrimer :: string
  WriteActorRoot :: bool
  WriteActorText :: bool
  RequireDyad :: bool
  NewActorLength :: int

text \<open>
  An entry of CodedEvents is the Python list \<open>[source, target, event]\<close>, extended by
  the root strings and by the text strings when the configuration asks for them; these
  may be \<open>None\<close>.
\<close>

type_synonym event = "string \<times> string \<times> string \<times> string option list"

text \<open>StoryEventList holds \<open>[SentenceID]\<close> markers and events.\<close>

datatype story_item = SentenceMark string | StoryEvent event

record coder_state =
  UpperSeq :: "string list"
  LowerSeq :: "string list"
  SentenceID :: string
  SentenceLoc :: string
  EventCode :: string
  SourceLoc :: "int \<times> bool"
  TargetLoc :: "int \<times> bool"
  IsPassive :: bool
  CodedEvents :: "event list"
  StoryEventList :: "story_item list"
  codelist :: "string list"

section \<open>make\_event\_strings: the nested functions\<close>

text \<open>\<open>extract_code_fields\<close>: the list \<open>[maincode, rootstrg, textstrg]\<close>.\<close>

type_synonym code_fields = "string \<times> string option \<times> string option"

definition extract_code_fields :: "globals \<Rightarrow> string \<Rightarrow> code_fields" where
  "extract_code_fields g fullcode =
     (if contains (CodePrimer g) fullcode then
        (let maincode = take (the (str_find (CodePrimer g) fullcode)) fullcode;
             part2 = snd (snd (partition_str (RootPrimer g) fullcode));
             rootstrg =
               (if WriteActorRoot g then
                  (if WriteActorText g then Some (fst (partition_str (TextPrimer g) part2))
                   else Some part2)
                else None);
             textstrg =
               (if WriteActorText g
                then Some (snd (snd (partition_str (TextPrimer g) fullcode)))
                else None)
         in (maincode, rootstrg, textstrg))
      else (fullcode, None, None))"

text \<open>The list appended to CodedEvents for one pair.\<close>

definition new_event :: "globals \<Rightarrow> code_fields \<Rightarrow> code_fields \<Rightarrow> string \<Rightarrow> event" where
  "new_event g srclist tarlist codeevt =
     (fst srclist, fst tarlist, codeevt,
      (if WriteActorRoot g then [fst (snd srclist), fst (snd tarlist)] else []) @
      (if WriteActorText g then [snd (snd srclist), snd (snd tarlist)] else []))"

text \<open>
  The \<open>'---'\<close> prefix is replaced by the sentence location when one is known.
\<close>

definition add_location :: "string \<Rightarrow> code_fields \<Rightarrow> code_fields" where
  "add_location sloc fl =
     (if take 3 (fst fl) = ''---'' \<and> length sloc > 0
      then (sloc @ drop 3 (fst fl), snd fl) else fl)"

text \<open>
  The inner loop of \<open>make_events\<close> over \<open>codestar\<close>. The variable \<open>srclist\<close> is
  assigned inside the loop when the voice is passive, and the assignment is seen by the
  next pass, so it is threaded through. \<open>None\<close> is the early return that has emptied
  CodedEvents.
\<close>

fun make_events_inner ::
  "globals \<Rightarrow> bool \<Rightarrow> string \<Rightarrow> string \<Rightarrow> string list \<Rightarrow> code_fields \<Rightarrow> event list
   \<Rightarrow> event list option" where
  "make_events_inner g passive sloc codeevt [] srclist ce = Some ce"
| "make_events_inner g passive sloc codeevt (thistar # rest) srclist ce =
     (if contains ''(NEC'' thistar then None
      else
        (let tarlist = extract_code_fields g thistar in
         if fst srclist \<noteq> fst tarlist then
           (let tarlist1 = add_location sloc tarlist;
                srclist2 = (if passive then tarlist1 else srclist);
                tarlist2 = (if passive then srclist else tarlist1)
            in make_events_inner g passive sloc codeevt rest srclist2
                 (ce @ [new_event g srclist2 tarlist2 codeevt]))
         else make_events_inner g passive sloc codeevt rest srclist ce))"

text \<open>\<open>make_events(codessrc, codestar, codeevt)\<close>, returning the new CodedEvents.\<close>

fun make_events ::
  "globals \<Rightarrow> bool \<Rightarrow> string \<Rightarrow> string list \<Rightarrow> string list \<Rightarrow> string \<Rightarrow> event list
   \<Rightarrow> event list" where
  "make_events g passive sloc [] codestar codeevt ce = ce"
| "make_events g passive sloc (thissrc # rest) codestar codeevt ce =
     (if contains ''(NEC'' thissrc then []
      else
        (let srclist = add_location sloc (extract_code_fields g thissrc) in
         case make_events_inner g passive sloc codeevt codestar srclist ce of
           None \<Rightarrow> []
         | Some ce1 \<Rightarrow> make_events g passive sloc rest codestar codeevt ce1))"

text \<open>
  \<open>expand_compound_codes\<close>: the index runs over the length the list had on entry,
  while the list grows.
\<close>

function expand_loop :: "nat \<Rightarrow> nat \<Rightarrow> string list \<Rightarrow> string list" where
  "expand_loop n ka cl =
     (if ka < n then
        (if CHR ''/'' \<in> set (cl ! ka)
         then expand_loop n (Suc ka) (take ka cl @ split_on CHR ''/'' (cl ! ka) @ drop (Suc ka) cl)
         else expand_loop n (Suc ka) cl)
      else cl)"
  by pat_completeness auto
termination
  by (relation "measure (\<lambda>(n, ka, cl). n - ka)") auto

declare expand_loop.simps [simp del]

definition expand_compound_codes :: "string list \<Rightarrow> string list" where
  "expand_compound_codes cl = expand_loop (length cl) 0 cl"

text \<open>Removal of the null coded cases, and of duplicates (first occurrence kept).\<close>

primrec remove_null :: "event list \<Rightarrow> event list" where
  "remove_null [] = []"
| "remove_null (e # es) =
     (if fst e = ''---'' \<or> fst (snd e) = ''---'' then remove_null es
      else e # remove_null es)"

function remove_duplicates :: "event list \<Rightarrow> event list" where
  "remove_duplicates [] = []"
| "remove_duplicates (e # es) = e # remove_duplicates (filter (\<lambda>x. x \<noteq> e) es)"
  by pat_completeness auto
termination
  by (relation "measure length") (auto simp: less_Suc_eq_le)

text \<open>
  The part of \<open>make_event_strings\<close> after the two code lists are known. SentenceLoc has
  been set to the empty string by then.
\<close>

definition assemble_events ::
  "globals \<Rightarrow> bool \<Rightarrow> string \<Rightarrow> string list \<Rightarrow> string list \<Rightarrow> event list \<Rightarrow> event list" where
  "assemble_events g passive evcode srccodes tarcodes ce =
     (if length srccodes = 0 \<or> length tarcodes = 0 then ce
      else
        (let ce1 =
           (if contains '':'' evcode then
              (let tarcodes1 =
                     (if hd srccodes = ''---'' \<or> hd tarcodes = ''---'' then
                        (if hd tarcodes = ''---'' then srccodes else tarcodes)
                      else tarcodes);
                   srccodes1 =
                     (if hd srccodes = ''---'' \<or> hd tarcodes = ''---'' then
                        (if hd tarcodes = ''---'' then srccodes else tarcodes)
                      else srccodes);
                   ecodes = partition_str '':'' evcode;
                   ce2 = make_events g passive [] srccodes1 tarcodes1 (fst ecodes) ce
               in make_events g passive [] tarcodes1 srccodes1 (snd (snd ecodes)) ce2)
            else make_events g passive [] srccodes tarcodes evcode ce);
             ce3 = (if RequireDyad g then remove_null ce1 else ce1)
         in remove_duplicates ce3))"

section \<open>get\_loccodes\<close>

text \<open>
  \<open>get_ne_text(neloc, isupperseq)\<close>: the two loops that collect the words of the phrase.
  Reading the first character of an empty token raises IndexError.
\<close>

function upper_text_loop :: "string list \<Rightarrow> int \<Rightarrow> string \<Rightarrow> error + string" where
  "upper_text_loop seq ka acphr =
     (if ka \<ge> 0 then
        (case py_index seq ka of
           None \<Rightarrow> Inl IndexError
         | Some tok \<Rightarrow>
             (case tok of
                [] \<Rightarrow> Inl IndexError
              | c # _ \<Rightarrow>
                  if c \<noteq> CHR ''~'' then upper_text_loop seq (ka - 1) (acphr @ '' '' @ tok)
                  else Inr acphr))
      else Inr acphr)"
  by pat_completeness auto
termination
  by (relation "measure (\<lambda>(seq, ka, acphr). nat (ka + 1))") auto

declare upper_text_loop.simps [simp del]

function lower_text_loop :: "string list \<Rightarrow> int \<Rightarrow> string \<Rightarrow> error + string" where
  "lower_text_loop seq ka acphr =
     (case py_index seq ka of
        None \<Rightarrow> Inl IndexError
      | Some tok \<Rightarrow>
          (case tok of
             [] \<Rightarrow> Inl IndexError
           | c # _ \<Rightarrow>
               if c \<noteq> CHR ''~'' then lower_text_loop seq (ka + 1) (acphr @ '' '' @ tok)
               else Inr acphr))"
  by pat_completeness auto
termination
  by (relation "measure (\<lambda>(seq, ka, acphr). nat (int (length seq) - ka))")
     (auto simp: py_index_def Let_def split: if_splits)

declare lower_text_loop.simps [simp del]

definition get_ne_text :: "string list \<Rightarrow> bool \<Rightarrow> int \<Rightarrow> error + string" where
  "get_ne_text seq isupperseq neloc =
     (if isupperseq then
        (case py_index seq (neloc - 1) of
           None \<Rightarrow> Inl IndexError
         | Some acphr \<Rightarrow> upper_text_loop seq (neloc - 2) acphr)
      else
        (case py_index seq (neloc + 1) of
           None \<Rightarrow> Inl IndexError
         | Some acphr \<Rightarrow> lower_text_loop seq (neloc + 2) acphr))"

text \<open>
  \<open>add_code(neloc, isupperseq)\<close> appends to the global \<open>codelist\<close>. The result is the
  exception raised, if any, and the list as it stands then.
\<close>

definition add_to_last :: "string list \<Rightarrow> string \<Rightarrow> string list" where
  "add_to_last cl s = butlast cl @ [last cl @ s]"

definition add_code ::
  "globals \<Rightarrow> string list \<Rightarrow> bool \<Rightarrow> int \<Rightarrow> string list \<Rightarrow> error option \<times> string list" where
  "add_code g seq isupperseq neloc cl =
     (case py_index seq neloc of
        None \<Rightarrow> (Some IndexError, cl)
      | Some acneitem \<Rightarrow>
          (let accode = drop (nat (py_find ''>'' acneitem + 1)) acneitem;
               r1 =
                 (if accode \<noteq> ''---'' then (None, cl @ [accode])
                  else if NewActorLength g > 0 then
                    (case get_ne_text seq isupperseq neloc of
                       Inl e \<Rightarrow> (Some e, cl)
                     | Inr t \<Rightarrow>
                         (let acphr = [CHR 0x22] @ t @ [CHR 0x22];
                              cl1 = cl @ [if int (length (filter (\<lambda>c. c = CHR '' '') acphr))
                                             < NewActorLength g
                                          then acphr else accode]
                          in (None, if WriteActorRoot g
                                    then add_to_last cl1 (RootPrimer g @ ''---'') else cl1)))
                  else (None, cl))
           in case fst r1 of
                Some e \<Rightarrow> r1
              | None \<Rightarrow>
                  (if WriteActorText g \<and> length (snd r1) > 0 then
                     (case get_ne_text seq isupperseq neloc of
                        Inl e \<Rightarrow> (Some e, snd r1)
                      | Inr t \<Rightarrow> (None, add_to_last (snd r1) (TextPrimer g @ t)))
                   else r1)))"

text \<open>The two loops over a compound, \<open>(NEC ... ~NEC\<close>.\<close>

function upper_nec_loop ::
  "globals \<Rightarrow> string list \<Rightarrow> int \<Rightarrow> string list \<Rightarrow> error option \<times> string list" where
  "upper_nec_loop g seq ka cl =
     (case py_index seq ka of
        None \<Rightarrow> (Some IndexError, cl)
      | Some tok \<Rightarrow>
          if contains ''~NEC'' tok then (None, cl)
          else
            (let r = (if contains ''(NE'' tok then add_code g seq True ka cl else (None, cl))
             in case fst r of
                  Some e \<Rightarrow> r
                | None \<Rightarrow>
                    if ka - 1 < 0 then (Some HasParseError, snd r)
                    else upper_nec_loop g seq (ka - 1) (snd r)))"
  by pat_completeness auto
termination
  by (relation "measure (\<lambda>(g, seq, ka, cl). nat ka)") auto

declare upper_nec_loop.simps [simp del]

function lower_nec_loop ::
  "globals \<Rightarrow> string list \<Rightarrow> int \<Rightarrow> string list \<Rightarrow> error option \<times> string list" where
  "lower_nec_loop g seq ka cl =
     (case py_index seq ka of
        None \<Rightarrow> (Some IndexError, cl)
      | Some tok \<Rightarrow>
          if contains ''~NEC'' tok then (None, cl)
          else
            (let r = (if contains ''(NE'' tok then add_code g seq False ka cl else (None, cl))
             in case fst r of
                  Some e \<Rightarrow> r
                | None \<Rightarrow>
                    if ka + 1 \<ge> int (length seq) then (Some HasParseError, snd r)
                    else lower_nec_loop g seq (ka + 1) (snd r)))"
  by pat_completeness auto
termination
  by (relation "measure (\<lambda>(g, seq, ka, cl). nat (int (length seq) - ka))") auto

declare lower_nec_loop.simps [simp del]

text \<open>
  \<open>get_loccodes(thisloc)\<close>: the value returned or the exception raised, and the globals
  as the call leaves them.
\<close>

definition finish_loccodes ::
  "coder_state \<Rightarrow> error option \<times> string list \<Rightarrow> (error + string list) \<times> coder_state" where
  "finish_loccodes st r =
     (case fst r of
        Some e \<Rightarrow> (Inl e, st\<lparr>codelist := snd r\<rparr>)
      | None \<Rightarrow>
          if length (snd r) = 0 then (Inr [''---''], st\<lparr>codelist := [''---'']\<rparr>)
          else (Inr (snd r), st\<lparr>codelist := snd r\<rparr>))"

definition get_loccodes ::
  "globals \<Rightarrow> coder_state \<Rightarrow> int \<times> bool \<Rightarrow> (error + string list) \<times> coder_state" where
  "get_loccodes g st thisloc =
     (let st0 = st\<lparr>StoryEventList := [], codelist := []\<rparr> in
      if snd thisloc then
        (case py_index (UpperSeq st0) (fst thisloc) of
           None \<Rightarrow> (Inl HasParseError, st0)
         | Some neitem \<Rightarrow>
             finish_loccodes st0
               (if contains ''(NEC'' neitem
                then upper_nec_loop g (UpperSeq st0) (fst thisloc - 1) []
                else add_code g (UpperSeq st0) True (fst thisloc) []))
      else
        (case py_index (LowerSeq st0) (fst thisloc) of
           None \<Rightarrow> (Inl HasParseError, st0)
         | Some neitem \<Rightarrow>
             (let st1 = st0\<lparr>StoryEventList :=
                              SentenceMark (SentenceID st0) # map StoryEvent (CodedEvents st0)\<rparr>
              in finish_loccodes st1
                   (if contains ''(NEC'' neitem
                    then lower_nec_loop g (LowerSeq st1) (fst thisloc + 1) []
                    else add_code g (LowerSeq st1) False (fst thisloc) []))))"

section \<open>make\_event\_strings\<close>

definition make_event_strings :: "globals \<Rightarrow> coder_state \<Rightarrow> error option \<times> coder_state" where
  "make_event_strings g st =
     (case get_loccodes g st (SourceLoc st) of
        (Inl e, st1) \<Rightarrow> (Some e, st1)
      | (Inr srccodes0, st1) \<Rightarrow>
          (let srccodes = expand_compound_codes srccodes0 in
           case get_loccodes g (st1\<lparr>codelist := srccodes\<rparr>) (TargetLoc st1) of
             (Inl e, st2) \<Rightarrow> (Some e, st2)
           | (Inr tarcodes0, st2) \<Rightarrow>
               (let tarcodes = expand_compound_codes tarcodes0;
                    st3 = st2\<lparr>codelist := tarcodes, SentenceLoc := []\<rparr>
                in (None, st3\<lparr>CodedEvents :=
                      assemble_events g (IsPassive st3) (EventCode st3) srccodes tarcodes
                        (CodedEvents st3)\<rparr>))))"

text \<open>A configuration for the worked examples: no root or text output, dyads required.\<close>

definition example_globals :: globals where
  "example_globals =
     \<lparr>CodePrimer = ''=#='', RootPrimer = ''=#=:'', TextPrimer = ''=#=+'',
      WriteActorRoot = False, WriteActorText = False, RequireDyad = True,
      NewActorLength = 0\<rparr>"

section \<open>Entity resolution: actor\_phrase\_match, get\_actor\_code, check\_NEphrase\<close>

text \<open>
  A stored pattern is the Python list \<open>[code, connector, (word, connector), ...]\<close>: its
  first element (an index into ActorCodes for an actor, the code for an agent), the
  connector after the key word, and the remaining words. Its length as a Python list is
  two more than the number of remaining words.
\<close>

type_synonym 'c pattern = "'c \<times> string \<times> (string \<times> string) list"

definition pattern_len :: "'c pattern \<Rightarrow> nat" where
  "pattern_len p = 2 + length (snd (snd p))"

text \<open>
  The loop of \<open>actor_phrase_match\<close>, on the words of the pattern from \<open>kpatword\<close> and
  the words of the phrase from \<open>kfrag\<close>. The test for the end of the phrase comes before
  each test of the loop condition.
\<close>

fun apm_loop :: "(string \<times> string) list \<Rightarrow> string \<Rightarrow> string list \<Rightarrow> bool" where
  "apm_loop rest connector [] = False"
| "apm_loop [] connector (f # fs) = True"
| "apm_loop (p # ps) connector (f # fs) =
     (if f = fst p then
        (if length ps \<le> 1 then True else apm_loop ps (snd p) fs)
      else if connector = ''_'' then False
      else apm_loop (p # ps) connector fs)"

definition actor_phrase_match :: "'c pattern \<Rightarrow> string list \<Rightarrow> bool" where
  "actor_phrase_match patphrase phrasefrag =
     (let rest = snd (snd patphrase) in
      if rest = [] then True
      else if length rest = 1 \<and> fst (hd rest) = [] then True
      else apm_loop rest (fst (snd patphrase)) (drop 1 phrasefrag))"

text \<open>
  An element of a tuple in ActorCodes: \<open>[code]\<close>, \<open>[0, date, code]\<close>, \<open>[1, date, code]\<close>,
  \<open>[2, date, date, code]\<close>, or the name of the root actor, a string, which the reader adds
  at the end when roots are written.
\<close>

datatype code_item =
    Default string
  | Before int string
  | After int string
  | Interval int int string
  | RootName string

record dictionaries =
  ActorDict :: "string \<rightharpoonup> nat pattern list"
  ActorCodes :: "code_item list list"
  AgentDict :: "string \<rightharpoonup> string pattern list"

text \<open>The first loop of \<open>get_actor_code\<close>, which stops at the first variant that holds.\<close>

fun restricted_code :: "int \<Rightarrow> code_item list \<Rightarrow> string option" where
  "restricted_code d [] = None"
| "restricted_code d (Before lim c # items) =
     (if d \<le> lim then Some c else restricted_code d items)"
| "restricted_code d (After lim c # items) =
     (if d \<ge> lim then Some c else restricted_code d items)"
| "restricted_code d (Interval lo hi c # items) =
     (if d \<ge> lo \<and> d \<le> hi then Some c else restricted_code d items)"
| "restricted_code d (item # items) = restricted_code d items"

text \<open>
  The second loop: every element of length one assigns, so the last one stays. A root
  name is a string, whose length is its number of characters.
\<close>

fun unrestricted_code :: "string option \<Rightarrow> code_item list \<Rightarrow> string option" where
  "unrestricted_code thecode [] = thecode"
| "unrestricted_code thecode (Default c # items) = unrestricted_code (Some c) items"
| "unrestricted_code thecode (RootName r # items) =
     unrestricted_code (if length r = 1 then Some r else thecode) items"
| "unrestricted_code thecode (item # items) = unrestricted_code thecode items"

text \<open>Python's \<open>not thecode\<close>: \<open>None\<close> or the empty string.\<close>

definition not_code :: "string option \<Rightarrow> bool" where
  "not_code thecode = (thecode = None \<or> thecode = Some [])"

text \<open>
  \<open>get_actor_code(index)\<close> with the sentence date \<open>SentenceOrdDate\<close>. An index out of
  range leaves \<open>codelist\<close> unbound, and the next line raises NameError.
\<close>

definition get_actor_code ::
  "globals \<Rightarrow> code_item list list \<Rightarrow> int \<Rightarrow> nat \<Rightarrow> error + string" where
  "get_actor_code g codes SentenceOrdDate index =
     (if index \<ge> length codes then Inl NameError
      else
        (let cl = codes ! index;
             thecode0 =
               (case cl of
                  [Default c] \<Rightarrow> Some c
                | [RootName r] \<Rightarrow> (if length r = 1 then Some r else None)
                | _ \<Rightarrow> None);
             thecode1 = (case restricted_code SentenceOrdDate cl of
                           Some c \<Rightarrow> Some c | None \<Rightarrow> thecode0);
             thecode2 = (if not_code thecode1 then unrestricted_code thecode1 cl else thecode1)
         in if not_code thecode2 then Inr ''---''
            else if WriteActorRoot g then
              (case last cl of
                 RootName r \<Rightarrow> Inr (the thecode2 @ RootPrimer g @ r)
               | _ \<Rightarrow> Inl TypeError)
            else Inr (the thecode2)))"

text \<open>The \<open>for\<close> loop over the patterns of one key word, left at the first match.\<close>

fun first_match :: "'c pattern list \<Rightarrow> string list \<Rightarrow> 'c option" where
  "first_match [] phrasefrag = None"
| "first_match (p # ps) phrasefrag =
     (if actor_phrase_match p phrasefrag then Some (fst p) else first_match ps phrasefrag)"

fun actor_loop ::
  "globals \<Rightarrow> dictionaries \<Rightarrow> int \<Rightarrow> string list \<Rightarrow> error + string" where
  "actor_loop g d date [] = Inr []"
| "actor_loop g d date (w # ws) =
     (case ActorDict d w of
        None \<Rightarrow> actor_loop g d date ws
      | Some patlist \<Rightarrow>
          (case first_match patlist (w # ws) of
             None \<Rightarrow> actor_loop g d date ws
           | Some index \<Rightarrow>
               (case get_actor_code g (ActorCodes d) date index of
                  Inl e \<Rightarrow> Inl e
                | Inr actorcode \<Rightarrow>
                    if length actorcode > 0 then Inr actorcode
                    else actor_loop g d date ws)))"

fun agent_loop :: "dictionaries \<Rightarrow> string list \<Rightarrow> string list" where
  "agent_loop d [] = []"
| "agent_loop d (w # ws) =
     (case AgentDict d w of
        None \<Rightarrow> agent_loop d ws
      | Some patlist \<Rightarrow>
          (case first_match patlist (w # ws) of
             None \<Rightarrow> agent_loop d ws
           | Some code \<Rightarrow> code # agent_loop d ws))"

text \<open>The search for the agent code in the actor code, in steps of three characters.\<close>

function agent_present :: "string \<Rightarrow> string \<Rightarrow> nat \<Rightarrow> bool" where
  "agent_present agc actorcode ka =
     (if int ka < int (length actorcode) - int (length agc) + 1 then
        (if agc = take (length agc) (drop ka actorcode) then True
         else agent_present agc actorcode (ka + 3))
      else False)"
  by pat_completeness auto
termination
  by (relation "measure (\<lambda>(agc, actorcode, ka). length actorcode + 1 - ka)") auto

declare agent_present.simps [simp del]

text \<open>The loop that assembles the composite code; it is left at the first duplicate.\<close>

fun assemble_code :: "string list \<Rightarrow> string \<Rightarrow> error + string" where
  "assemble_code [] actorcode = Inr actorcode"
| "assemble_code (agentcode # rest) actorcode =
     (case agentcode of
        [] \<Rightarrow> Inl IndexError
      | c # _ \<Rightarrow>
          (let agc = (if c = CHR ''~'' then drop 1 agentcode else butlast agentcode) in
           if agent_present agc actorcode 0 then Inr actorcode
           else assemble_code rest
                  (if c = CHR ''~'' then actorcode @ agc else agc @ actorcode)))"

text \<open>\<open>check_NEphrase(nephrase)\<close>: \<open>None\<close> for \<open>[False]\<close>, \<open>Some code\<close> for \<open>[True, code]\<close>.\<close>

definition check_NEphrase ::
  "globals \<Rightarrow> dictionaries \<Rightarrow> int \<Rightarrow> string list \<Rightarrow> error + string option" where
  "check_NEphrase g d date nephrase =
     (case actor_loop g d date nephrase of
        Inl e \<Rightarrow> Inl e
      | Inr actorcode0 \<Rightarrow>
          (let agentlist = agent_loop d nephrase in
           if length agentlist = 0 then
             (if length actorcode0 = 0 then Inr None else Inr (Some actorcode0))
           else
             (let actorcode1 = (if length actorcode0 = 0 then ''---'' else actorcode0);
                  part = partition_str (RootPrimer g) actorcode1;
                  actorcode2 = (if WriteActorRoot g then fst part else actorcode1)
              in case assemble_code agentlist actorcode2 of
                   Inl e \<Rightarrow> Inl e
                 | Inr code \<Rightarrow>
                     Inr (Some (if WriteActorRoot g
                                then code @ RootPrimer g @ snd (snd part) else code)))))"

section \<open>check\_discards\<close>

text \<open>
  One of the two loops over the discard list: \<open>isplus\<close> selects the targets that begin
  with \<open>'+'\<close>. The sentence text has been put in upper case.
\<close>

fun discard_loop :: "bool \<Rightarrow> string \<Rightarrow> string list \<Rightarrow> error + string option" where
  "discard_loop isplus sent [] = Inr None"
| "discard_loop isplus sent (target # rest) =
     (case target of
        [] \<Rightarrow> Inl IndexError
      | c # _ \<Rightarrow>
          if (c = CHR ''+'') = isplus then
            (let mtarg0 = (if isplus then drop 1 target else target);
                 mtarg = (if last target = CHR ''_'' then butlast mtarg0 else mtarg0)
             in case str_find mtarg sent of
                  None \<Rightarrow> discard_loop isplus sent rest
                | Some loc \<Rightarrow>
                    if last target = CHR ''_'' then
                      (if loc + length mtarg < length sent then
                         (if sent ! (loc + length mtarg) \<in> set '' .!?'' then Inr (Some target)
                          else discard_loop isplus sent rest)
                       else Inl IndexError)
                    else Inr (Some target))
          else discard_loop isplus sent rest)"

text \<open>\<open>str.upper()\<close> on the letters a to z.\<close>

definition upper_char :: "char \<Rightarrow> char" where
  "upper_char c =
     (let n = (of_char c :: nat) in if 97 \<le> n \<and> n \<le> 122 then char_of (n - 32) else c)"

definition check_discards :: "string \<Rightarrow> string list \<Rightarrow> error + int \<times> string" where
  "check_discards SentenceText DiscardList =
     (let sent = map upper_char SentenceText in
      case discard_loop True sent DiscardList of
        Inl e \<Rightarrow> Inl e
      | Inr (Some target) \<Rightarrow> Inr (2, target)
      | Inr None \<Rightarrow>
          (case discard_loop False sent DiscardList of
             Inl e \<Rightarrow> Inl e
           | Inr (Some target) \<Rightarrow> Inr (1, target)
           | Inr None \<Rightarrow> Inr (0, [])))"

section \<open>Worked inputs\<close>

text \<open>
  A passive sentence, "protesters were attacked by police and soldiers": the source
  locator points at the entity before the verb, the target locator at the entity after
  BY, whose code is the slash code of two actors. A previous sentence of the story has
  left one event in the story list.
\<close>

definition passive_example :: coder_state where
  "passive_example =
     \<lparr>UpperSeq = [''WERE'', ''~NE'', ''PROTESTERS'', ''(NE<3>OPP''],
      LowerSeq = [''BY'', ''(NE<12>COP/MIL'', ''POLICE'', ''AND'', ''SOLDIERS'', ''~NE''],
      SentenceID = ''STORY1_2'', SentenceLoc = [], EventCode = ''190'',
      SourceLoc = (3, True), TargetLoc = (1, False), IsPassive = True,
      CodedEvents = [],
      StoryEventList = [SentenceMark ''STORY1_1'', StoryEvent (''USA'', ''RUS'', ''040'', [])],
      codelist = []\<rparr>"

text \<open>
  An agent dictionary with the two phrases of the docstring of \<open>check_NEphrase\<close>, which
  share the code OPP, and a third agent.
\<close>

definition agents_example :: dictionaries where
  "agents_example =
     \<lparr>ActorDict = Map.empty, ActorCodes = [],
      AgentDict = map_of
        [(''PARLIAMENTARY'', [(''~OPP'', '' '', [(''OPPOSITION'', '' ''), (''GROUP'', '' '')])]),
         (''OPPOSITION'', [(''~OPP'', '' '', [(''GROUP'', '' '')])]),
         (''POLICE'', [(''~COP'', '' '', [])])]\<rparr>"

section \<open>Ordinal dates\<close>

text \<open>
  \<open>int(s)\<close> on a string: blanks around the number and a sign are accepted, anything
  else than decimal digits raises ValueError (\<open>None\<close>).
\<close>

definition is_digit :: "char \<Rightarrow> bool" where
  "is_digit c = (48 \<le> (of_char c :: nat) \<and> (of_char c :: nat) \<le> 57)"

definition is_space :: "char \<Rightarrow> bool" where
  "is_space c = ((of_char c :: nat) \<in> {9, 10, 11, 12, 13, 32})"

definition lstrip :: "string \<Rightarrow> string" where
  "lstrip s = dropWhile is_space s"

definition rstrip :: "string \<Rightarrow> string" where
  "rstrip s = rev (dropWhile is_space (rev s))"

definition strip :: "string \<Rightarrow> string" where
  "strip s = lstrip (rstrip s)"

definition digits_value :: "string \<Rightarrow> int" where
  "digits_value ds = foldl (\<lambda>n c. 10 * n + (int (of_char c) - 48)) 0 ds"

definition py_int :: "string \<Rightarrow> int option" where
  "py_int s =
     (let t = strip s;
          neg = (t \<noteq> [] \<and> hd t = CHR ''-'');
          ds = (if t \<noteq> [] \<and> (hd t = CHR ''-'' \<or> hd t = CHR ''+'') then tl t else t)
      in if ds \<noteq> [] \<and> list_all is_digit ds
         then Some (if neg then - digits_value ds else digits_value ds)
         else None)"

text \<open>The test of the day against the month and the year; \<open>True\<close> raises DateError.\<close>

definition bad_day :: "int \<Rightarrow> int \<Rightarrow> int \<Rightarrow> bool" where
  "bad_day year month day =
     (if day \<le> 0 then True
      else if month = 2 then
        (if year mod 400 = 0 then day > 29
         else if year mod 100 = 0 then day > 28
         else if year mod 4 = 0 then day > 29
         else day > 28)
      else if month \<in> {4, 6, 9, 11} then day > 30
      else day > 31)"

text \<open>
  The day count from the year, the month and the day. The floor of a quotient of
  integers is \<open>div\<close>.
\<close>

definition ordate_of :: "int \<Rightarrow> int \<Rightarrow> int \<Rightarrow> int" where
  "ordate_of year month day =
     (let adj = (if month < 3 then 1 else 0);
          yr = year + 4800 - adj;
          mo = month + 12 * adj - 3
      in day + (153 * mo + 2) div 5 + 365 * yr
         + (yr div 4 - yr div 100 + yr div 400 - 32045) - 2305813)"

definition dstr_to_ordate :: "string \<Rightarrow> error + int" where
  "dstr_to_ordate datestring =
     (let fields =
            (if length datestring > 7 then
               (py_int (take 4 datestring), py_int (take 2 (drop 4 datestring)),
                py_int (take 2 (drop 6 datestring)))
             else
               (map_option (\<lambda>y. if y \<le> 30 then y + 2000 else y + 1900)
                  (py_int (take 2 datestring)),
                py_int (take 2 (drop 2 datestring)),
                py_int (take 2 (drop 4 datestring))))
      in case fields of
           (Some year, Some month, Some day) \<Rightarrow>
             if bad_day year month day then Inl DateError
             else Inr (ordate_of year month day)
         | _ \<Rightarrow> Inl DateError)"

text \<open>
  What \<open>get_actor_code\<close> adds to a code when roots are written: the primer and the root
  name that ends the tuple of codes.
\<close>

definition root_entry :: "globals \<Rightarrow> string \<Rightarrow> code_item list" where
  "root_entry g r = (if WriteActorRoot g then [RootName r] else [])"


section \<open>The actor dictionary reader\<close>

text \<open>\<open>s.find(c, start)\<close> for a character, with the length plus one for "not found".\<close>

definition find_char_from :: "char \<Rightarrow> string \<Rightarrow> nat \<Rightarrow> nat" where
  "find_char_from c s start =
     (case str_find [c] (drop start s) of
        None \<Rightarrow> length s + 1
      | Some i \<Rightarrow> start + i)"

text \<open>
  \<open>make_noun_list(nounst)\<close>: the phrase is broken on blanks and underscores into
  pairs of a word and the connector that follows it.
\<close>

function noun_loop :: "string \<Rightarrow> nat \<Rightarrow> (string \<times> string) list" where
  "noun_loop nounst start =
     (if start < length nounst then
        (let spfind = find_char_from CHR '' '' nounst start;
             unfind = find_char_from CHR ''_'' nounst start
         in if unfind < spfind
            then (take (unfind - start) (drop start nounst), ''_'') # noun_loop nounst (unfind + 1)
            else (take (spfind - start) (drop start nounst), '' '') # noun_loop nounst (spfind + 1))
      else [])"
  by pat_completeness auto
termination
  by (relation "measure (\<lambda>(nounst, start). length nounst + 2 - start)")
     (auto simp: find_char_from_def split: option.splits)

declare noun_loop.simps [simp del]

definition make_noun_list :: "string \<Rightarrow> (string \<times> string) list" where
  "make_noun_list nounst = noun_loop nounst 0"

text \<open>
  The state of the loop of \<open>read_actor_dictionary\<close>: the two global tables, and the
  locals \<open>codeindex\<close>, \<open>curlist\<close> and \<open>rootactor\<close> (unbound until a primary phrase is
  read).
\<close>

record actor_reader =
  rd_ActorDict :: "string \<rightharpoonup> nat pattern list"
  rd_ActorCodes :: "code_item list list"
  rd_codeindex :: nat
  rd_curlist :: "code_item list"
  rd_rootactor :: "string option"

text \<open>
  A line that begins with a tab: a date restriction. \<open>None\<close> is a line skipped with a
  warning, otherwise the element appended to \<open>curlist\<close>.
\<close>

definition date_restriction :: "string \<Rightarrow> code_item option" where
  "date_restriction line =
     (case str_find ''['' line of
        None \<Rightarrow> None
      | Some brack \<Rightarrow>
          (let part = partition_str '' '' (strip (drop (brack + 1) line));
               code = strip (fst part);
               rest = lstrip (snd (snd part))
           in if CHR ''<'' \<in> set rest \<or> CHR ''>'' \<in> set rest then
                (let ka = 1 + length (takeWhile (\<lambda>c. \<not> is_digit c) (drop 1 rest));
                     kb = ka + 6 + length (takeWhile is_digit (drop (ka + 6) rest))
                 in case dstr_to_ordate (take (kb - ka) (drop ka rest)) of
                      Inl e \<Rightarrow> None
                    | Inr ord \<Rightarrow>
                        if hd rest = CHR ''<'' then Some (Before ord code)
                        else Some (After ord code))
              else if CHR ''-'' \<in> set rest then
                (let part1 = partition_str ''-'' rest;
                     part2 = partition_str '']'' (snd (snd part1))
                 in case dstr_to_ordate (strip (fst part1)) of
                      Inl e \<Rightarrow> None
                    | Inr ord1 \<Rightarrow>
                        (case dstr_to_ordate (strip (fst part2)) of
                           Inl e \<Rightarrow> None
                         | Inr ord2 \<Rightarrow>
                             if ord2 < ord1 then None
                             else Some (Interval ord1 ord2 code)))
              else
                Some (Default (case str_find '']'' code of
                                 None \<Rightarrow> butlast code
                               | Some i \<Rightarrow> take i code))))"

text \<open>The pattern stored for a phrase, under its first word.\<close>

definition store_actor :: "actor_reader \<Rightarrow> string \<Rightarrow> actor_reader" where
  "store_actor st actor =
     (let nounlist = make_noun_list actor;
          keyword = fst (hd nounlist);
          phlist = (rd_codeindex st, snd (hd nounlist), tl nounlist)
      in st\<lparr>rd_ActorDict := (rd_ActorDict st)
               (keyword \<mapsto> (case rd_ActorDict st keyword of
                                None \<Rightarrow> [phlist]
                              | Some l \<Rightarrow> l @ [phlist]))\<rparr>)"

text \<open>One pass of the loop, for a line that is not the stop line.\<close>

definition actor_line :: "globals \<Rightarrow> actor_reader \<Rightarrow> string \<Rightarrow> error + actor_reader" where
  "actor_line g st line =
     (if hd line = CHR 0x09 then
        (case date_restriction line of
           None \<Rightarrow> Inr st
         | Some item \<Rightarrow> Inr (st\<lparr>rd_curlist := rd_curlist st @ [item]\<rparr>))
      else if hd line = CHR ''+'' then
        Inr (store_actor st (strip (drop 1 (fst (partition_str '';'' line))) @ '' ''))
      else
        (case (if length (rd_curlist st) > 0 then
                 (if WriteActorRoot g then
                    (case rd_rootactor st of
                       None \<Rightarrow> Inl NameError
                     | Some r \<Rightarrow>
                         Inr (st\<lparr>rd_ActorCodes := rd_ActorCodes st @ [rd_curlist st @ [RootName r]],
                                 rd_codeindex := length (rd_ActorCodes st) + 1,
                                 rd_curlist := []\<rparr>))
                  else
                    Inr (st\<lparr>rd_ActorCodes := rd_ActorCodes st @ [rd_curlist st],
                            rd_codeindex := length (rd_ActorCodes st) + 1,
                            rd_curlist := []\<rparr>))
               else Inr st) of
           Inl e \<Rightarrow> Inl e
         | Inr st1 \<Rightarrow>
             (let part = (if CHR ''['' \<in> set line then partition_str ''['' line
                          else partition_str '';'' line);
                  st2 = (if CHR ''['' \<in> set line
                         then st1\<lparr>rd_curlist := rd_curlist st1 @
                                  [Default (strip (fst (partition_str '']'' (snd (snd part)))))]\<rparr>
                         else st1);
                  actor = strip (fst part) @ '' ''
              in Inr (store_actor (st2\<lparr>rd_rootactor := Some actor\<rparr>) actor))))"

text \<open>
  The loop over the lines that \<open>read_FIN_line\<close> delivers; the empty line is the end of
  the file.
\<close>

fun actor_lines :: "globals \<Rightarrow> actor_reader \<Rightarrow> string list \<Rightarrow> error + actor_reader" where
  "actor_lines g st [] = Inr st"
| "actor_lines g st (line # rest) =
     (if length line = 0 then Inr st
      else if contains ''---STOP---'' line then Inr st
      else (case actor_line g st line of
              Inl e \<Rightarrow> Inl e
            | Inr st1 \<Rightarrow> actor_lines g st1 rest))"

text \<open>
  \<open>list.sort(key=len, reverse=True)\<close>: by decreasing length, patterns of the same
  length staying in the order they had.
\<close>

definition sort_patterns :: "'c pattern list \<Rightarrow> 'c pattern list" where
  "sort_patterns l = sort_key (\<lambda>p. - int (pattern_len p)) l"

text \<open>
  \<open>read_actor_dictionary\<close>, from the tables as they are before the call and the lines
  of the file: the tables after the call.
\<close>

definition read_actor_dictionary ::
  "globals \<Rightarrow> (string \<rightharpoonup> nat pattern list) \<Rightarrow> code_item list list \<Rightarrow> string list
   \<Rightarrow> error + (string \<rightharpoonup> nat pattern list) \<times> code_item list list" where
  "read_actor_dictionary g ad ac lines =
     (case actor_lines g
             \<lparr>rd_ActorDict = ad, rd_ActorCodes = ac, rd_codeindex = length ac,
              rd_curlist = [], rd_rootactor = None\<rparr> lines of
        Inl e \<Rightarrow> Inl e
      | Inr st \<Rightarrow>
          Inr (\<lambda>lockey. map_option sort_patterns (rd_ActorDict st lockey), rd_ActorCodes st))"

text \<open>
  An actor file of three entries; the first ends with the connector \<open>_\<close>, the second
  continues it by one word and does not.
\<close>

definition actor_file_example :: "string list" where
  "actor_file_example =
     [''UNITED_STATES_ [USA]'' @ [CHR 0x0A],
      ''UNITED_STATES_CONGRESS [USAGOV]'' @ [CHR 0x0A],
      ''ZIMBABWE [ZIM]'' @ [CHR 0x0A]]"

text \<open>
  An actor file with date restrictions: a code before 1999-01-01 for the first entry;
  a code before 1992-04-27 and a code from 1992-04-27 to 2003-02-04 for the second. The
  third entry is the last of the file.
\<close>

definition actor_dates_example :: "string list" where
  "actor_dates_example =
     [''RUSSIA [RUS]'' @ [CHR 0x0A],
      CHR 0x09 # ''[USR <19990101]'' @ [CHR 0x0A],
      ''YUGOSLAVIA [YUG]'' @ [CHR 0x0A],
      CHR 0x09 # ''[SFR <19920427]'' @ [CHR 0x0A],
      CHR 0x09 # ''[SRB 19920427-20030204]'' @ [CHR 0x0A],
      ''ZIMBABWE [ZIM]'' @ [CHR 0x0A],
      CHR 0x09 # ''[RHO <19800418]'' @ [CHR 0x0A]]"


section \<open>The verb dictionary reader\<close>


text \<open>\<open>s.split()\<close>: the words between runs of blanks.\<close>

function py_words :: "string \<Rightarrow> string list" where
  "py_words s =
     (let t = dropWhile is_space s in
      if t = [] then []
      else takeWhile (\<lambda>c. \<not> is_space c) t # py_words (dropWhile (\<lambda>c. \<not> is_space c) t))"
  by pat_completeness auto
termination
proof (relation "measure length", goal_cases)
  case 1
  then show ?case by simp
next
  case (2 s t)
  then have ne: "dropWhile is_space s \<noteq> []" and t: "t = dropWhile is_space s"
    by auto
  have "t \<noteq> []"
    unfolding t by (rule ne)
  then obtain c cs where cs: "t = c # cs"
    by (auto simp: neq_Nil_conv)
  have "\<not> is_space c"
    using hd_dropWhile[OF ne] t cs by (metis list.sel(1))
  then have "length (dropWhile (\<lambda>c. \<not> is_space c) t) \<le> length cs"
    using cs by (simp add: length_dropWhile_le)
  moreover have "length t \<le> length s"
    unfolding t by (rule length_dropWhile_le)
  ultimately show ?case using cs by simp
qed

declare py_words.simps [simp del]

text \<open>\<open>xs[a:b]\<close> with the indices Python allows.\<close>

definition py_slice :: "'a list \<Rightarrow> int \<Rightarrow> int \<Rightarrow> 'a list" where
  "py_slice xs a b =
     (let n = int (length xs);
          lo = (if a < 0 then max 0 (n + a) else min a n);
          hi = (if b < 0 then max 0 (n + b) else min b n)
      in take (nat (hi - lo)) (drop (nat lo) xs))"

































section \<open>The token sequence: balance and clause elision\<close>

text \<open>
  \<open>check_balance()\<close>: the tokens that begin with \<open>(\<close> and those that begin with \<open>~\<close>
  are counted. \<open>None\<close> is the normal return.
\<close>

definition is_open :: "string \<Rightarrow> bool" where
  "is_open t = (t \<noteq> [] \<and> hd t = CHR ''('')"

definition is_close :: "string \<Rightarrow> bool" where
  "is_close t = (t \<noteq> [] \<and> hd t = CHR ''~'')"

definition count_open :: "string list \<Rightarrow> nat" where
  "count_open pl = length (filter is_open pl)"

definition count_close :: "string list \<Rightarrow> nat" where
  "count_close pl = length (filter is_close pl)"

definition check_balance :: "string list \<Rightarrow> error option" where
  "check_balance pl =
     (if [] \<in> set pl then Some IndexError
      else if count_open pl \<noteq> count_close pl then Some UnbalancedTree
      else None)"

text \<open>
  The end of \<open>read_TreeBank\<close>, from the text \<open>fullline\<close> that the scan of the parse
  string has built: the text is split into tokens, each \<open>)\<close> becomes the close marker
  of the label on top of the stack of open labels (the loop is left when the stack is
  empty), and the sequence is checked. For a parse string without noun phrase, compound,
  verb phrase and conjunction labels and without \<open>~\<close>, \<open>fullline\<close> is the parse string.
\<close>

fun close_tags :: "string list \<Rightarrow> string list \<Rightarrow> error + string list" where
  "close_tags opstack [] = Inr []"
| "close_tags opstack (t # ts) =
     (case t of
        [] \<Rightarrow> Inl IndexError
      | c # l \<Rightarrow>
          if c = CHR ''('' then map_sum id ((#) t) (close_tags (l # opstack) ts)
          else if c = CHR '')'' then
            (case opstack of
               [] \<Rightarrow> Inr (t # ts)
             | op # opstack1 \<Rightarrow> map_sum id ((#) (CHR ''~'' # op)) (close_tags opstack1 ts))
          else map_sum id ((#) t) (close_tags opstack ts))"

text \<open>\<open>check_irregulars()\<close> without argument: the dateline pattern.\<close>

definition dateline :: "string list \<Rightarrow> bool" where
  "dateline pl = (take 3 (filter is_open pl) = [''(ROOT'', ''(NE'', ''(NEC''])"

definition read_TreeBank_end :: "string \<Rightarrow> error + string list" where
  "read_TreeBank_end fullline =
     (case close_tags [] (py_words fullline) of
        Inl e \<Rightarrow> Inl e
      | Inr pl \<Rightarrow>
          if dateline pl then Inl IrregularPattern
          else (case check_balance pl of
                  None \<Rightarrow> Inr pl
                | Some UnbalancedTree \<Rightarrow> Inl IrregularPattern
                | Some e \<Rightarrow> Inl e))"

text \<open>
  Open and close markers match, label by label, in well-formed nesting: the markers
  are run against a stack of open labels, which is empty at the end.
\<close>

fun nested :: "string list \<Rightarrow> string list \<Rightarrow> bool" where
  "nested opstack [] = (opstack = [])"
| "nested opstack (t # ts) =
     (if is_open t then nested (tl t # opstack) ts
      else if is_close t then
        (case opstack of
           [] \<Rightarrow> False
         | op # opstack1 \<Rightarrow> tl t = op \<and> nested opstack1 ts)
      else nested opstack ts)"

text \<open>The thresholds of the clause elision, from the configuration.\<close>

record comma_config =
  CommaMin :: int
  CommaMax :: int
  CommaBMin :: int
  CommaBMax :: int
  CommaEMin :: int
  CommaEMax :: int

text \<open>\<open>list.index(x, start)\<close>: \<open>None\<close> is ValueError.\<close>

primrec first_index :: "'a \<Rightarrow> 'a list \<Rightarrow> nat option" where
  "first_index x [] = None"
| "first_index x (y # ys) = (if x = y then Some 0 else map_option Suc (first_index x ys))"

definition index_from :: "'a \<Rightarrow> 'a list \<Rightarrow> int \<Rightarrow> int option" where
  "index_from x xs start =
     (let s = (if start < 0 then max 0 (int (length xs) + start) else start)
      in map_option (\<lambda>i. s + int i) (first_index x (drop (nat s) xs)))"

definition is_alpha :: "char \<Rightarrow> bool" where
  "is_alpha c =
     ((65 \<le> (of_char c :: nat) \<and> (of_char c :: nat) \<le> 90) \<or>
      (97 \<le> (of_char c :: nat) \<and> (of_char c :: nat) \<le> 122))"

text \<open>\<open>count_word(loclow, lochigh)\<close>.\<close>

function count_loop :: "string list \<Rightarrow> int \<Rightarrow> int \<Rightarrow> int \<Rightarrow> error + int" where
  "count_loop pl ka lochigh cwkt =
     (if ka < lochigh then
        (case py_index pl ka of
           None \<Rightarrow> Inl IndexError
         | Some t \<Rightarrow>
             if t = ''(NE'' then count_loop pl (ka + 2) lochigh cwkt
             else (case t of
                     [] \<Rightarrow> Inl IndexError
                   | c # _ \<Rightarrow>
                       count_loop pl (ka + 1) lochigh
                         (if c \<noteq> CHR ''('' \<and> c \<noteq> CHR ''~'' \<and> is_alpha c
                          then cwkt + 1 else cwkt)))
      else Inr cwkt)"
  by pat_completeness auto
termination
  by (relation "measure (\<lambda>(pl, ka, lochigh, cwkt). nat (lochigh - ka))") auto

declare count_loop.simps [simp del]

definition count_word :: "string list \<Rightarrow> int \<Rightarrow> int \<Rightarrow> error + int" where
  "count_word pl loclow lochigh = count_loop pl loclow lochigh 0"

text \<open>\<open>find_end()\<close>.\<close>

function find_end_loop :: "string list \<Rightarrow> int \<Rightarrow> error + int" where
  "find_end_loop pl ka =
     (if ka \<ge> 2 then
        (case py_index pl ka of
           None \<Rightarrow> Inl IndexError
         | Some t \<Rightarrow>
             (case t of
                [] \<Rightarrow> Inl IndexError
              | c # _ \<Rightarrow> if c = CHR ''~'' then find_end_loop pl (ka - 1) else Inr (ka - 1)))
      else Inr (ka - 1))"
  by pat_completeness auto
termination
  by (relation "measure (\<lambda>(pl, ka). nat ka)") auto

declare find_end_loop.simps [simp del]

definition find_end :: "string list \<Rightarrow> error + int" where
  "find_end pl = find_end_loop pl (int (length pl) - 1)"

text \<open>
  \<open>delete_phrases(loclow, lochigh)\<close>: the sequence is run through backwards with a
  stack of the labels of close markers; at an open marker with the label on top of the
  stack, the tokens from it to the next close marker of that label are cut out.
\<close>

function delete_loop ::
  "string list \<Rightarrow> int \<Rightarrow> int \<Rightarrow> string list \<Rightarrow> error + string list" where
  "delete_loop pl loclow ka stack =
     (if ka \<ge> loclow then
        (case py_index pl ka of
           None \<Rightarrow> Inl IndexError
         | Some t \<Rightarrow>
             (case t of
                [] \<Rightarrow> Inl IndexError
              | c # l \<Rightarrow>
                  if c = CHR ''~'' then delete_loop pl loclow (ka - 1) (l # stack)
                  else if length stack > 0 \<and> c = CHR ''('' \<and> l = hd stack then
                    (case index_from (CHR ''~'' # l) pl (ka + 1) of
                       None \<Rightarrow> Inl ValueError
                     | Some j \<Rightarrow>
                         delete_loop (py_slice pl 0 ka @ py_slice pl (j + 1) (int (length pl)))
                           loclow (ka - 1) (tl stack))
                  else delete_loop pl loclow (ka - 1) stack))
      else Inr pl)"
  by pat_completeness auto
termination
  by (relation "measure (\<lambda>(pl, loclow, ka, stack). nat (ka - loclow + 1))") auto

declare delete_loop.simps [simp del]

definition delete_phrases :: "string list \<Rightarrow> int \<Rightarrow> int \<Rightarrow> error + string list" where
  "delete_phrases pl loclow lochigh = delete_loop pl loclow (lochigh - 1) []"

text \<open>The search backwards for the last comma marker before \<open>kend\<close>.\<close>

function comma_before :: "string list \<Rightarrow> int \<Rightarrow> error + int" where
  "comma_before pl ka =
     (if ka \<ge> 2 then
        (case py_index pl ka of
           None \<Rightarrow> Inl IndexError
         | Some t \<Rightarrow> if t \<noteq> ''(,'' then comma_before pl (ka - 1) else Inr ka)
      else Inr ka)"
  by pat_completeness auto
termination
  by (relation "measure (\<lambda>(pl, ka). nat ka)") auto

declare comma_before.simps [simp del]

definition bind_error :: "error + 'a \<Rightarrow> ('a \<Rightarrow> error + 'b) \<Rightarrow> error + 'b" where
  "bind_error r f = (case r of Inl e \<Rightarrow> Inl e | Inr x \<Rightarrow> f x)"

text \<open>The initial clause.\<close>

definition initial_pass :: "comma_config \<Rightarrow> string list \<Rightarrow> error + string list" where
  "initial_pass cfg pl =
     (if CommaBMax cfg \<noteq> 0 then
        (case first_index ''(,'' pl of
           None \<Rightarrow> Inl ValueError
         | Some i \<Rightarrow>
             bind_error (count_word pl 2 (int i))
               (\<lambda>kount. if kount \<ge> CommaBMin cfg \<and> kount \<le> CommaBMax cfg
                        then delete_phrases pl 2 (int i) else Inr pl))
      else Inr pl)"

text \<open>The terminal clause.\<close>

definition terminal_pass :: "comma_config \<Rightarrow> string list \<Rightarrow> error + string list" where
  "terminal_pass cfg pl =
     (if CommaEMax cfg \<noteq> 0 then
        bind_error (find_end pl) (\<lambda>kend.
        bind_error (comma_before pl (kend - 1)) (\<lambda>ka.
          case py_index pl ka of
            None \<Rightarrow> Inl IndexError
          | Some t \<Rightarrow>
              if t = ''(,'' then
                bind_error (count_word pl ka (int (length pl)))
                  (\<lambda>kount. if kount \<ge> CommaEMin cfg \<and> kount \<le> CommaEMax cfg
                           then delete_phrases pl (ka + 3) kend else Inr pl)
              else Inr pl))
      else Inr pl)"

text \<open>
  The internal clauses: the loop from one comma marker to the next, which ends when
  \<open>index\<close> finds no further marker.
\<close>

function internal_loop :: "comma_config \<Rightarrow> string list \<Rightarrow> nat \<Rightarrow> error + string list" where
  "internal_loop cfg pl ka =
     (case index_from ''(,'' pl (int ka + 1) of
        None \<Rightarrow> Inr pl
      | Some kb \<Rightarrow>
          (case count_word pl (int ka + 2) kb of
             Inl e \<Rightarrow> Inl e
           | Inr kount \<Rightarrow>
               if kount \<ge> CommaMin cfg \<and> kount \<le> CommaMax cfg then
                 (case delete_phrases pl (int ka) kb of
                    Inl e \<Rightarrow> Inl e
                  | Inr pl1 \<Rightarrow> internal_loop cfg pl1 (nat kb))
               else internal_loop cfg pl (nat kb)))"
  by pat_completeness auto
termination
proof (relation "measure (\<lambda>(cfg, pl, ka). length pl - ka)", goal_cases)
  case 1
  then show ?case by simp
next
  case (2 cfg pl ka kb kount pl1)
  have shrink: "length q \<le> length p"
    if "delete_loop p lo k st = Inr q" "0 \<le> lo" for p q :: "string list" and lo k st
    using that
  proof (induction p lo k st rule: delete_loop.induct)
    case (1 p lo k st)
    show ?case
    proof (cases "k \<ge> lo")
      case False
      with "1.prems" show ?thesis by (simp add: delete_loop.simps)
    next
      case True
      then have k0: "0 \<le> k" using "1.prems"(2) by simp
      from "1.prems"(1) True obtain t where t: "py_index p k = Some t"
        by (subst (asm) delete_loop.simps) (auto split: option.splits)
      from "1.prems"(1) True t obtain c l where cl: "t = c # l"
        by (subst (asm) delete_loop.simps) (auto split: list.splits)
      show ?thesis
      proof (cases "c = CHR ''~''")
        case True
        have "delete_loop p lo (k - 1) (l # st) = Inr q"
          using "1.prems"(1) \<open>k \<ge> lo\<close> t cl True
          by (subst (asm) delete_loop.simps) simp
        from "1.IH"(1)[OF \<open>k \<ge> lo\<close> t cl True this "1.prems"(2)] show ?thesis .
      next
        case nt: False
        show ?thesis
        proof (cases "length st > 0 \<and> c = CHR ''('' \<and> l = hd st")
          case False
          have "delete_loop p lo (k - 1) st = Inr q"
            using "1.prems"(1) \<open>k \<ge> lo\<close> t cl nt False
            by (subst (asm) delete_loop.simps) (auto split: if_splits)
          from "1.IH"(3)[OF \<open>k \<ge> lo\<close> t cl nt False this "1.prems"(2)] show ?thesis .
        next
          case m: True
          from "1.prems"(1) \<open>k \<ge> lo\<close> t cl nt m obtain j where
            j: "index_from (CHR ''~'' # l) p (k + 1) = Some j"
            by (subst (asm) delete_loop.simps) (auto split: option.splits)
          let ?p1 = "py_slice p 0 k @ py_slice p (j + 1) (int (length p))"
          from "1.prems"(1) \<open>k \<ge> lo\<close> t cl nt m j
          have "delete_loop ?p1 lo (k - 1) (tl st) = Inr q"
            by (subst (asm) delete_loop.simps) (auto split: if_splits)
          from "1.IH"(2)[OF \<open>k \<ge> lo\<close> t cl nt m j this "1.prems"(2)]
          have "length q \<le> length ?p1" .
          moreover have "j \<ge> k + 1"
            using j k0 by (auto simp: index_from_def Let_def)
          then have "length ?p1 \<le> length p"
            using k0 by (auto simp: py_slice_def Let_def min_def max_def)
          ultimately show ?thesis by simp
        qed
      qed
    qed
  qed
  from 2 have kb: "index_from ''(,'' pl (int ka + 1) = Some kb" by simp
  have fi: "first_index x xs = Some i \<Longrightarrow> i < length xs" for x :: string and xs i
    by (induction xs arbitrary: i) (auto split: if_splits)
  from kb have "int ka < kb" "kb < int (length pl)"
    by (auto simp: index_from_def Let_def dest!: fi)
  moreover from 2 have "delete_loop pl (int ka) (kb - 1) [] = Inr pl1"
    by (simp add: delete_phrases_def)
  from shrink[OF this] have "length pl1 \<le> length pl" by simp
  ultimately show ?case by simp
next
  case (3 cfg pl ka kb kount)
  then have kb: "index_from ''(,'' pl (int ka + 1) = Some kb" by simp
  have fi: "first_index x xs = Some i \<Longrightarrow> i < length xs" for x :: string and xs i
    by (induction xs arbitrary: i) (auto split: if_splits)
  from kb have "int ka < kb" "kb < int (length pl)"
    by (auto simp: index_from_def Let_def dest!: fi)
  then show ?case by simp
qed

declare internal_loop.simps [simp del]

definition internal_pass :: "comma_config \<Rightarrow> string list \<Rightarrow> error + string list" where
  "internal_pass cfg pl =
     (if CommaMax cfg \<noteq> 0 then
        (case first_index ''(,'' pl of
           None \<Rightarrow> Inl ValueError
         | Some i \<Rightarrow> internal_loop cfg pl i)
      else Inr pl)"

text \<open>The removal of a dangling initial and of a dangling terminal comma.\<close>

definition cut_three :: "string list \<Rightarrow> int \<Rightarrow> string list" where
  "cut_three pl ka = py_slice pl 0 ka @ py_slice pl (ka + 3) (int (length pl))"

definition dangling_initial :: "string list \<Rightarrow> error + string list" where
  "dangling_initial pl =
     (case first_index ''(,'' pl of
        None \<Rightarrow> Inl ValueError
      | Some i \<Rightarrow>
          bind_error (count_word pl 2 (int i))
            (\<lambda>kount. if kount = 0 then Inr (cut_three pl (int i)) else Inr pl))"

definition dangling_terminal :: "string list \<Rightarrow> error + string list" where
  "dangling_terminal pl =
     bind_error (find_end pl) (\<lambda>kend.
     bind_error (comma_before pl (kend - 1)) (\<lambda>ka.
       case py_index pl ka of
         None \<Rightarrow> Inl IndexError
       | Some t \<Rightarrow>
           if t = ''(,'' then
             bind_error (count_word pl (ka + 1) kend)
               (\<lambda>kount. if kount = 0 then Inr (cut_three pl ka) else Inr pl)
           else Inr pl))"

text \<open>
  \<open>check_commas()\<close>: the new ParseList, or the exception that leaves the function. The
  UnbalancedTree of the last check is turned into HasParseError there.
\<close>

definition comma_passes :: "comma_config \<Rightarrow> string list \<Rightarrow> error + string list" where
  "comma_passes cfg pl =
     bind_error (initial_pass cfg pl) (\<lambda>pl1.
     bind_error (terminal_pass cfg pl1) (\<lambda>pl2.
     bind_error (internal_pass cfg pl2) (\<lambda>pl3.
     bind_error (dangling_initial pl3) dangling_terminal)))"

definition check_commas :: "comma_config \<Rightarrow> string list \<Rightarrow> error + string list" where
  "check_commas cfg pl =
     (if ''(,'' \<notin> set pl then Inr pl
      else
        (case comma_passes cfg pl of
           Inl e \<Rightarrow> Inl e
         | Inr pl1 \<Rightarrow>
             (case check_balance pl1 of
                None \<Rightarrow> Inr pl1
              | Some UnbalancedTree \<Rightarrow> Inl HasParseError
              | Some e \<Rightarrow> Inl e)))"

text \<open>
  The start of \<open>code_record()\<close>: an IndexError of \<open>check_commas\<close> is caught and turned
  into HasParseError; \<open>assign_NEcodes\<close> runs on the sequence returned.
\<close>

definition code_record_commas :: "comma_config \<Rightarrow> string list \<Rightarrow> error + string list" where
  "code_record_commas cfg pl =
     (case check_commas cfg pl of
        Inl IndexError \<Rightarrow> Inl HasParseError
      | Inl e \<Rightarrow> Inl e
      | Inr pl1 \<Rightarrow> Inr pl1)"

text \<open>
  Thresholds that elide internal and terminal clauses of two to eight words, and no
  initial clause.
\<close>

definition comma_example :: comma_config where
  "comma_example =
     \<lparr>CommaMin = 2, CommaMax = 8, CommaBMin = 0, CommaBMax = 0, CommaEMin = 2, CommaEMax = 8\<rparr>"

text \<open>
  A parse string whose first comma phrase is empty and closes a phrase with it, and
  whose second comma phrase holds a phrase instead of a comma.
\<close>

definition unmatched_example :: string where
  "unmatched_example = ''(ROOT (S (X (, ) ) (A B ) (, (Y ) ) (. . ) ) )''"

text \<open>A sentence with an internal clause between two commas.\<close>

definition clause_example :: string where
  "clause_example =
     ''(ROOT (S (NE --- FRANCE ) (, , ) (SBR WHICH WAS AT WAR ) (, , ) (VP1 (VBD ATTACKED ) (NE --- GERMANY ) ) (. . ) ) )''"

section \<open>Event assembly\<close>

lemma add_location_Nil: "add_location [] fl = fl"
  by (simp add: add_location_def)

lemma new_event_src: "fst (new_event g s t c) = fst s"
  and new_event_tar: "fst (snd (new_event g s t c)) = fst t"
  and new_event_evt: "fst (snd (snd (new_event g s t c))) = c"
  by (simp_all add: new_event_def)

lemma make_events_inner_appends:
  "make_events_inner g passive [] codeevt codestar srclist ce = Some r \<Longrightarrow>
   \<exists>new. r = ce @ new \<and> (\<forall>e \<in> set new. fst e \<noteq> fst (snd e))"
proof (induction codestar arbitrary: srclist ce)
  case Nil
  then show ?case by simp
next
  case (Cons thistar rest)
  show ?case
  proof (cases "fst srclist = fst (extract_code_fields g thistar)")
    case True
    with Cons.prems have "make_events_inner g passive [] codeevt rest srclist ce = Some r"
      by (simp split: if_splits)
    from Cons.IH[OF this] show ?thesis .
  next
    case False
    let ?t = "extract_code_fields g thistar"
    let ?s2 = "if passive then ?t else srclist"
    let ?t2 = "if passive then srclist else ?t"
    let ?e = "new_event g ?s2 ?t2 codeevt"
    from Cons.prems False
    have "make_events_inner g passive [] codeevt rest ?s2 (ce @ [?e]) = Some r"
      by (simp add: add_location_Nil Let_def split: if_splits)
    from Cons.IH[OF this] obtain new where
      n: "r = (ce @ [?e]) @ new" "\<forall>e \<in> set new. fst e \<noteq> fst (snd e)" by blast
    have "fst ?e \<noteq> fst (snd ?e)" using False
      by (auto simp: new_event_src new_event_tar)
    with n show ?thesis by (intro exI[of _ "?e # new"]) simp
  qed
qed

lemma remove_duplicates_distinct: "distinct xs \<Longrightarrow> remove_duplicates xs = xs"
proof (induction xs)
  case Nil then show ?case by simp
next
  case (Cons e es)
  then have "filter (\<lambda>x. x \<noteq> e) es = es" by (auto simp: filter_id_conv)
  with Cons show ?case by simp
qed

lemma remove_null_id:
  "\<forall>e \<in> set xs. fst e \<noteq> ''---'' \<and> fst (snd e) \<noteq> ''---'' \<Longrightarrow> remove_null xs = xs"
  by (induction xs) auto

lemma make_events_single:
  assumes "\<not> contains ''(NEC'' a" "\<not> contains ''(NEC'' b"
    and "fst (extract_code_fields g a) \<noteq> fst (extract_code_fields g b)"
  shows "make_events g False [] [a] [b] codeevt ce =
           ce @ [new_event g (extract_code_fields g a) (extract_code_fields g b) codeevt]"
  using assms by (simp add: add_location_Nil)

text \<open>
  C7. Whatever the source codes, the target codes, the event code and the voice, every
  event that \<open>make_events\<close> appends to CodedEvents has a source code different from its
  target code. (The sentence location is empty when \<open>make_event_strings\<close> calls
  \<open>make_events\<close>; the other outcome is the early return that empties CodedEvents.)
\<close>

theorem self_reference_suppression:
  "make_events g passive [] codessrc codestar codeevt ce = [] \<or>
   (\<exists>new. make_events g passive [] codessrc codestar codeevt ce = ce @ new \<and>
      (\<forall>e \<in> set new. fst e \<noteq> fst (snd e)))"
proof (induction codessrc arbitrary: ce)
  case Nil
  then show ?case by simp
next
  case (Cons thissrc rest)
  show ?case
  proof (cases "contains ''(NEC'' thissrc")
    case True
    then show ?thesis by simp
  next
    case False
    let ?s = "extract_code_fields g thissrc"
    show ?thesis
    proof (cases "make_events_inner g passive [] codeevt codestar ?s ce")
      case None
      with False show ?thesis by (simp add: add_location_Nil)
    next
      case (Some ce1)
      from make_events_inner_appends[OF Some] obtain n1 where
        n1: "ce1 = ce @ n1" "\<forall>e \<in> set n1. fst e \<noteq> fst (snd e)" by blast
      have eq: "make_events g passive [] (thissrc # rest) codestar codeevt ce
                  = make_events g passive [] rest codestar codeevt ce1"
        using False Some by (simp add: add_location_Nil)
      from Cons.IH[of ce1] show ?thesis
      proof
        assume "make_events g passive [] rest codestar codeevt ce1 = []"
        with eq show ?thesis by simp
      next
        assume "\<exists>new. make_events g passive [] rest codestar codeevt ce1 = ce1 @ new \<and>
                  (\<forall>e \<in> set new. fst e \<noteq> fst (snd e))"
        then obtain n2 where
          n2: "make_events g passive [] rest codestar codeevt ce1 = ce1 @ n2"
              "\<forall>e \<in> set n2. fst e \<noteq> fst (snd e)" by blast
        with n1 eq
        have "make_events g passive [] (thissrc # rest) codestar codeevt ce = ce @ (n1 @ n2)
                \<and> (\<forall>e \<in> set (n1 @ n2). fst e \<noteq> fst (snd e))" by auto
        then show ?thesis by blast
      qed
    qed
  qed
qed

theorem self_reference_suppression_witness:
  "\<exists>new. make_events example_globals False [] [''AAA'', ''BBB''] [''AAA'', ''BBB'', ''CCC'']
            ''010'' [(''XXX'', ''YYY'', ''020'', [])]
          = [(''XXX'', ''YYY'', ''020'', [])] @ new
        \<and> length new = 4 \<and> (\<forall>e \<in> set new. fst e \<noteq> fst (snd e))"
proof -
  have ev: "make_events example_globals False [] [''AAA'', ''BBB''] [''AAA'', ''BBB'', ''CCC'']
              ''010'' [(''XXX'', ''YYY'', ''020'', [])]
            = [(''XXX'', ''YYY'', ''020'', [])] @
              [(''AAA'', ''BBB'', ''010'', []), (''AAA'', ''CCC'', ''010'', []),
               (''BBB'', ''AAA'', ''010'', []), (''BBB'', ''CCC'', ''010'', [])]"
    by code_simp
  from self_reference_suppression
         [of example_globals False "[''AAA'', ''BBB'']" "[''AAA'', ''BBB'', ''CCC'']" "''010''"
             "[(''XXX'', ''YYY'', ''020'', [])]"]
  show ?thesis unfolding ev by auto
qed

lemma make_events_inner_active:
  "\<forall>t \<in> set codestar. \<not> contains ''(NEC'' t \<Longrightarrow>
   make_events_inner g False [] codeevt codestar srclist ce =
     Some (ce @ map (\<lambda>t. new_event g srclist (extract_code_fields g t) codeevt)
                  (filter (\<lambda>t. fst srclist \<noteq> fst (extract_code_fields g t)) codestar))"
  by (induction codestar arbitrary: ce) (simp_all add: add_location_Nil Let_def)

text \<open>
  In the active voice, with no compound marker among the codes, the events appended are
  those of all pairs of a source and a target with different codes, in the order of the
  two loops.
\<close>

lemma make_events_active:
  "\<forall>c \<in> set codessrc \<union> set codestar. \<not> contains ''(NEC'' c \<Longrightarrow>
   make_events g False [] codessrc codestar codeevt ce =
     ce @ concat (map (\<lambda>s. map (\<lambda>t. new_event g (extract_code_fields g s)
                                       (extract_code_fields g t) codeevt)
                            (filter (\<lambda>t. fst (extract_code_fields g s)
                                          \<noteq> fst (extract_code_fields g t)) codestar))
                      codessrc)"
proof (induction codessrc arbitrary: ce)
  case Nil
  then show ?case by simp
next
  case (Cons s rest)
  then have t: "\<forall>t \<in> set codestar. \<not> contains ''(NEC'' t" and s: "\<not> contains ''(NEC'' s"
    and r: "\<forall>c \<in> set rest \<union> set codestar. \<not> contains ''(NEC'' c" by auto
  show ?case
    using s by (simp add: add_location_Nil make_events_inner_active[OF t] Cons.IH[OF r] Let_def)
qed

text \<open>
  In the passive voice with a single target code, every event has the target code as
  its source and the code of the source as its target.
\<close>

lemma make_events_passive_one_target:
  "\<not> contains ''(NEC'' t \<Longrightarrow> \<forall>s \<in> set codessrc. \<not> contains ''(NEC'' s \<Longrightarrow>
   make_events g True [] codessrc [t] codeevt ce =
     ce @ map (\<lambda>s. new_event g (extract_code_fields g t) (extract_code_fields g s) codeevt)
            (filter (\<lambda>s. fst (extract_code_fields g s) \<noteq> fst (extract_code_fields g t))
               codessrc)"
  by (induction codessrc arbitrary: ce) (simp_all add: add_location_Nil Let_def)

text \<open>
  C2. A symmetric event code, a single source code \<open>A\<close> and a single target code \<open>B\<close>,
  different from each other and from \<open>'---'\<close>, active voice: the assembly adds exactly
  the event of \<open>A\<close> and \<open>B\<close> with the code before the colon and the event of \<open>B\<close> and
  \<open>A\<close> with the code after it. The events already coded for the sentence stay; they are
  the duplicate-free list that earlier calls have left (without null codes when dyads
  are required), and the two new events are not among them.
\<close>

theorem symmetric_code_split:
  assumes sym: "contains '':'' evcode"
    and src: "srclist = extract_code_fields g A"
    and tar: "tarlist = extract_code_fields g B"
    and neq: "fst srclist \<noteq> fst tarlist"
    and res: "A \<noteq> ''---''" "B \<noteq> ''---''" "fst srclist \<noteq> ''---''" "fst tarlist \<noteq> ''---''"
    and nec: "\<not> contains ''(NEC'' A" "\<not> contains ''(NEC'' B"
    and fwd: "forward = new_event g srclist tarlist (fst (partition_str '':'' evcode))"
    and rev: "reverse = new_event g tarlist srclist (snd (snd (partition_str '':'' evcode)))"
    and old: "distinct ce" "forward \<notin> set ce" "reverse \<notin> set ce"
             "RequireDyad g \<longrightarrow> (\<forall>e \<in> set ce. fst e \<noteq> ''---'' \<and> fst (snd e) \<noteq> ''---'')"
  shows "assemble_events g False evcode [A] [B] ce = ce @ [forward, reverse]"
proof -
  let ?fc = "fst (partition_str '':'' evcode)"
  let ?rc = "snd (snd (partition_str '':'' evcode))"
  have m1: "make_events g False [] [A] [B] ?fc ce = ce @ [forward]"
    using make_events_single[OF nec(1) nec(2), of g ?fc ce] neq src tar fwd by simp
  have m2: "make_events g False [] [B] [A] ?rc (ce @ [forward]) = ce @ [forward, reverse]"
    using make_events_single[OF nec(2) nec(1), of g ?rc "ce @ [forward]"] neq src tar rev
    by simp
  have fr: "forward \<noteq> reverse"
    using neq fwd rev by (metis new_event_src)
  have d: "distinct (ce @ [forward, reverse])"
    using old fr by simp
  have n: "\<forall>e \<in> set (ce @ [forward, reverse]). fst e \<noteq> ''---'' \<and> fst (snd e) \<noteq> ''---''"
    if "RequireDyad g"
    using that old(4) res fwd rev by (auto simp: new_event_src new_event_tar)
  have "assemble_events g False evcode [A] [B] ce =
          remove_duplicates (if RequireDyad g then remove_null (ce @ [forward, reverse])
                             else ce @ [forward, reverse])"
    using sym res(1,2) m1 m2 by (simp add: assemble_events_def Let_def)
  also have "\<dots> = ce @ [forward, reverse]"
    using remove_null_id[OF n] remove_duplicates_distinct[OF d] by (cases "RequireDyad g") simp_all
  finally show ?thesis .
qed

theorem symmetric_code_split_witness:
  "assemble_events example_globals False ''057:058'' [''USA''] [''RUS'']
       [(''FRA'', ''GMY'', ''190'', [])]
     = [(''FRA'', ''GMY'', ''190'', []), (''USA'', ''RUS'', ''057'', []),
        (''RUS'', ''USA'', ''058'', [])]"
proof -
  have h: "contains '':'' ''057:058''"
    "(''USA'', None, None) = extract_code_fields example_globals ''USA''"
    "(''RUS'', None, None) = extract_code_fields example_globals ''RUS''"
    "\<not> contains ''(NEC'' ''USA''" "\<not> contains ''(NEC'' ''RUS''"
    "(''USA'', ''RUS'', ''057'', []) = new_event example_globals (''USA'', None, None)
        (''RUS'', None, None) (fst (partition_str '':'' ''057:058''))"
    "(''RUS'', ''USA'', ''058'', []) = new_event example_globals (''RUS'', None, None)
        (''USA'', None, None) (snd (snd (partition_str '':'' ''057:058'')))"
    by code_simp+
  show ?thesis
    using symmetric_code_split[OF h(1) h(2) h(3) _ _ _ _ _ h(4) h(5) h(6) h(7),
            of "[(''FRA'', ''GMY'', ''190'', [])]"]
    by simp
qed

text \<open>
  C1 at a passive sentence whose target locator yields two codes (a slash code): the
  second event has the first target code as its target, not the code at the source
  locator. The swap assigns \<open>srclist\<close> inside the loop over the targets, and the next
  pass of that loop starts from the swapped value.
\<close>

theorem passive_swap_two_targets:
  "CodedEvents (snd (make_event_strings example_globals passive_example)) =
     [(''COP'', ''OPP'', ''190'', []), (''MIL'', ''COP'', ''190'', [])]"
  by code_simp

text \<open>
  C9 at the same sentence: the story list holds the events of the previous sentence
  before the calls, is empty after the call for a locator in the upper sequence, and
  holds the mark of the current sentence after the call for a locator in the lower
  sequence.
\<close>

theorem get_loccodes_story_list:
  "StoryEventList passive_example =
     [SentenceMark ''STORY1_1'', StoryEvent (''USA'', ''RUS'', ''040'', [])]
   \<and> fst (get_loccodes example_globals passive_example (3, True)) = Inr [''OPP'']
   \<and> StoryEventList (snd (get_loccodes example_globals passive_example (3, True))) = []
   \<and> fst (get_loccodes example_globals passive_example (1, False)) = Inr [''COP/MIL'']
   \<and> StoryEventList (snd (get_loccodes example_globals passive_example (1, False))) =
       [SentenceMark ''STORY1_2'']"
  by code_simp

text \<open>
  What \<open>get_loccodes\<close> leaves as it was: the two sequences, the coded events and the
  other globals of the sentence. The list it returns is never empty.
\<close>

lemma get_loccodes_frame:
  "UpperSeq (snd (get_loccodes g st loc)) = UpperSeq st
   \<and> LowerSeq (snd (get_loccodes g st loc)) = LowerSeq st
   \<and> CodedEvents (snd (get_loccodes g st loc)) = CodedEvents st
   \<and> EventCode (snd (get_loccodes g st loc)) = EventCode st
   \<and> SourceLoc (snd (get_loccodes g st loc)) = SourceLoc st
   \<and> TargetLoc (snd (get_loccodes g st loc)) = TargetLoc st
   \<and> IsPassive (snd (get_loccodes g st loc)) = IsPassive st"
  by (simp add: get_loccodes_def finish_loccodes_def Let_def split: option.splits)

lemma get_loccodes_nonempty:
  "fst (get_loccodes g st loc) = Inr cl \<Longrightarrow> cl \<noteq> []"
  by (auto simp: get_loccodes_def finish_loccodes_def Let_def split: option.splits if_splits)

section \<open>Entity resolution\<close>

text \<open>
  C3 at the phrase PARLIAMENTARY OPPOSITION GROUP POLICE: the agents found are OPP, OPP
  and COP; the second OPP is a duplicate, the loop is left there, and COP is not
  appended.
\<close>

theorem agent_after_duplicate_dropped:
  "agent_loop agents_example [''PARLIAMENTARY'', ''OPPOSITION'', ''GROUP'', ''POLICE'']
     = [''~OPP'', ''~OPP'', ''~COP'']
   \<and> check_NEphrase example_globals agents_example 0
       [''PARLIAMENTARY'', ''OPPOSITION'', ''GROUP'', ''POLICE''] = Inr (Some ''---OPP'')"
  by code_simp

section \<open>Discards\<close>

text \<open>
  C10 at a sentence that ends with the words of a discard phrase marked with \<open>_\<close>: the
  character after the match is read past the end of the text, which raises IndexError.
\<close>

theorem check_discards_at_end_of_text:
  "check_discards ''The man was killed'' ['' KILLED_''] = Inl IndexError"
  by code_simp

section \<open>Date restrictions\<close>





lemma restricted_code_root_entry: "restricted_code d (root_entry g r) = None"
  by (simp add: root_entry_def)


text \<open>The reader on the lines of date restrictions of an actor file.\<close>

lemma date_restriction_examples:
  "date_restriction (CHR 0x09 # ''[USR <19990101]'') = Some (Before 145367 ''USR'')"
  "date_restriction (CHR 0x09 # ''[RUS >19990101]'') = Some (After 145367 ''RUS'')"
  "date_restriction (CHR 0x09 # ''[SRB 19920427-20030204]'') = Some (Interval 142927 146862 ''SRB'')"
  "date_restriction (CHR 0x09 # ''[YUG]'') = Some (Default ''YUG'')"
  by code_simp+










text \<open>
  The last entry of a file is never appended to ActorCodes: its pattern is stored with
  an index that ActorCodes does not have, and resolving its phrase raises NameError.
\<close>

lemma last_entry_not_stored:
  "map_sum id
     (\<lambda>(ad, ac). (ad ''ZIMBABWE'', length ac,
         check_NEphrase example_globals
           \<lparr>ActorDict = ad, ActorCodes = ac, AgentDict = Map.empty\<rparr> 138000 [''ZIMBABWE'']))
     (read_actor_dictionary example_globals Map.empty [] actor_dates_example)
   = Inr (Some [(2, '' '', [])], 2, Inl NameError)"
  by code_simp




section \<open>Actor dictionary loading\<close>

text \<open>
  C5 at an actor file with UNITED\_STATES\_ [USA] and, after it, UNITED\_STATES\_CONGRESS
  [USAGOV]. The final connector \<open>_\<close> of the first phrase is stored as an empty last
  word, so both stored patterns have the same length and the sort leaves the shorter
  phrase first. Both patterns match the phrase UNITED STATES CONGRESS, and the phrase
  resolves to USA.
\<close>

theorem shorter_actor_pattern_first:
  "map_sum id
     (\<lambda>(ad, ac). (ad ''UNITED'', ac,
         check_NEphrase example_globals
           \<lparr>ActorDict = ad, ActorCodes = ac, AgentDict = Map.empty\<rparr> 0
           [''UNITED'', ''STATES'', ''CONGRESS'']))
     (read_actor_dictionary example_globals Map.empty [] actor_file_example)
   = Inr (Some [(0, ''_'', [(''STATES'', ''_''), ([], '' '')]),
                (1, ''_'', [(''STATES'', ''_''), (''CONGRESS'', '' '')])],
          [[Default ''USA''], [Default ''USAGOV'']],
          Inr (Some ''USA''))
   \<and> actor_phrase_match (0::nat, ''_'', [(''STATES'', ''_''), ([], '' '')])
         [''UNITED'', ''STATES'', ''CONGRESS'']
   \<and> actor_phrase_match (1::nat, ''_'', [(''STATES'', ''_''), (''CONGRESS'', '' '')])
         [''UNITED'', ''STATES'', ''CONGRESS'']"
  by code_simp

section \<open>Verb dictionary loading\<close>















section \<open>Balance of the token sequence\<close>

lemma map_sum_Cons_Inr:
  "map_sum id ((#) t) r = Inr pl \<Longrightarrow> \<exists>pl1. r = Inr pl1 \<and> pl = t # pl1"
  by (cases r) auto

lemma nested_plain:
  "\<forall>t \<in> set pl. \<not> is_open t \<and> \<not> is_close t \<Longrightarrow> nested opstack pl = (opstack = [])"
  by (induction pl) auto

lemma no_markers:
  assumes "count_open pl = count_close pl" "\<forall>t \<in> set pl. \<not> is_close t"
  shows "\<forall>t \<in> set pl. \<not> is_open t \<and> \<not> is_close t"
proof -
  from assms(2) have "filter is_close pl = []" by (simp add: filter_empty_conv)
  with assms(1) have "filter is_open pl = []" by (simp add: count_open_def count_close_def)
  with assms(2) show ?thesis by (simp add: filter_empty_conv)
qed

lemma close_tags_nested:
  assumes "close_tags opstack toks = Inr pl"
    and "\<forall>t \<in> set toks. \<not> is_close t"
    and "count_open pl + length opstack = count_close pl"
  shows "nested opstack pl"
  using assms
proof (induction toks arbitrary: opstack pl)
  case Nil
  then show ?case by (simp add: count_open_def count_close_def)
next
  case (Cons t ts)
  from Cons.prems(1) obtain c l where t: "t = c # l"
    by (cases t) auto
  from Cons.prems(2) have nc: "\<not> is_close t" "\<forall>t \<in> set ts. \<not> is_close t" by simp_all
  show ?case
  proof (cases "c = CHR ''(''")
    case True
    with Cons.prems(1) t obtain pl1 where
      pl1: "close_tags (l # opstack) ts = Inr pl1" "pl = t # pl1"
      by (auto dest: map_sum_Cons_Inr)
    have o: "is_open t" using t True by (simp add: is_open_def)
    from Cons.prems(3) pl1(2) o nc(1)
    have "count_open pl1 + length (l # opstack) = count_close pl1"
      by (simp add: count_open_def count_close_def)
    from Cons.IH[OF pl1(1) nc(2) this] show ?thesis
      using pl1(2) o t by simp
  next
    case no: False
    show ?thesis
    proof (cases "c = CHR '')''")
      case False
      with Cons.prems(1) t no obtain pl1 where
        pl1: "close_tags opstack ts = Inr pl1" "pl = t # pl1"
        by (auto dest: map_sum_Cons_Inr)
      have o: "\<not> is_open t" using t no by (simp add: is_open_def)
      from Cons.prems(3) pl1(2) o nc(1)
      have "count_open pl1 + length opstack = count_close pl1"
        by (simp add: count_open_def count_close_def)
      from Cons.IH[OF pl1(1) nc(2) this] show ?thesis
        using pl1(2) o nc(1) by simp
    next
      case True
      show ?thesis
      proof (cases opstack)
        case Nil
        with Cons.prems(1) t True have pl: "pl = t # ts" by simp
        with Cons.prems(3) Nil have "count_open pl = count_close pl" by simp
        from no_markers[OF this] Cons.prems(2) pl
        have "\<forall>t \<in> set pl. \<not> is_open t \<and> \<not> is_close t" by simp
        from nested_plain[OF this] Nil show ?thesis by simp
      next
        case (Cons op opstack1)
        with Cons.prems(1) t True obtain pl1 where
          pl1: "close_tags opstack1 ts = Inr pl1" "pl = (CHR ''~'' # op) # pl1"
          by (auto dest: map_sum_Cons_Inr)
        from Cons.prems(3) pl1(2) Cons
        have "count_open pl1 + length opstack1 = count_close pl1"
          by (simp add: count_open_def count_close_def is_open_def is_close_def)
        from Cons.IH[OF pl1(1) nc(2) this] show ?thesis
          using pl1(2) Cons by (simp add: is_open_def is_close_def)
      qed
    qed
  qed
qed

lemma py_words_chars: "t \<in> set (py_words s) \<Longrightarrow> set t \<subseteq> set s"
proof (induction s arbitrary: t rule: py_words.induct)
  case (1 s)
  let ?u = "dropWhile is_space s"
  show ?case
  proof (cases "?u = []")
    case True
    with "1.prems" show ?thesis by (subst (asm) py_words.simps) simp
  next
    case False
    with "1.prems" have
      "t = takeWhile (\<lambda>c. \<not> is_space c) ?u \<or>
       t \<in> set (py_words (dropWhile (\<lambda>c. \<not> is_space c) ?u))"
      by (subst (asm) py_words.simps) (auto simp: Let_def split: if_splits)
    then show ?thesis
    proof
      assume "t = takeWhile (\<lambda>c. \<not> is_space c) ?u"
      then have "set t \<subseteq> set ?u" by (meson set_takeWhileD subset_iff)
      then show ?thesis by (meson set_dropWhileD subset_iff)
    next
      assume "t \<in> set (py_words (dropWhile (\<lambda>c. \<not> is_space c) ?u))"
      from "1.IH"[OF refl False this]
      have "set t \<subseteq> set (dropWhile (\<lambda>c. \<not> is_space c) ?u)" .
      then show ?thesis by (meson set_dropWhileD subset_iff)
    qed
  qed
qed

lemma check_balance_None: "check_balance pl = None \<Longrightarrow> count_open pl = count_close pl"
  by (simp add: check_balance_def split: if_splits)

lemma read_TreeBank_end_Inr:
  assumes "read_TreeBank_end fullline = Inr pl"
  shows "close_tags [] (py_words fullline) = Inr pl \<and> check_balance pl = None"
  using assms
  by (auto simp: read_TreeBank_end_def split: sum.splits if_splits option.splits error.splits)

lemma check_commas_Inr:
  assumes "check_commas cfg pl = Inr pl1"
  shows "pl1 = pl \<or> check_balance pl1 = None"
  using assms
  by (auto simp: check_commas_def split: sum.splits if_splits option.splits error.splits)

text \<open>
  A sequence with different numbers of open and close markers is rejected at both
  checks: with IrregularPattern at the end of \<open>read_TreeBank\<close>, with HasParseError in
  \<open>code_record\<close>.
\<close>

lemma unequal_counts_rejected_by_read_TreeBank:
  assumes "close_tags [] (py_words fullline) = Inr pl" "[] \<notin> set pl"
    and "count_open pl \<noteq> count_close pl"
  shows "read_TreeBank_end fullline = Inl IrregularPattern"
  using assms by (simp add: read_TreeBank_end_def check_balance_def)

lemma unequal_counts_rejected_by_check_commas:
  assumes "''(,'' \<in> set pl" "comma_passes cfg pl = Inr pl1" "[] \<notin> set pl1"
    and "count_open pl1 \<noteq> count_close pl1"
  shows "code_record_commas cfg pl = Inl HasParseError"
  using assms by (simp add: code_record_commas_def check_commas_def check_balance_def)

text \<open>
  C6, as the code has it. A sentence whose token sequence reaches \<open>assign_NEcodes\<close> has
  passed the end of \<open>read_TreeBank\<close> and \<open>check_commas\<close>. After the tree normalizer the
  sequence has as many open as close markers, and they match in well-formed nesting
  (the parse string has been cleared of \<open>~\<close> before). After the clause elision the
  sequence has as many open as close markers.
\<close>

theorem balance_before_entity_resolution:
  assumes "CHR ''~'' \<notin> set fullline"
    and "read_TreeBank_end fullline = Inr pl"
    and "code_record_commas cfg pl = Inr pl1"
  shows "count_open pl = count_close pl \<and> nested [] pl \<and> count_open pl1 = count_close pl1"
proof -
  from read_TreeBank_end_Inr[OF assms(2)] have
    ct: "close_tags [] (py_words fullline) = Inr pl" and cb: "check_balance pl = None"
    by simp_all
  from check_balance_None[OF cb] have eq: "count_open pl = count_close pl" .
  have "\<forall>t \<in> set (py_words fullline). \<not> is_close t"
  proof
    fix t assume "t \<in> set (py_words fullline)"
    from py_words_chars[OF this] assms(1) have "CHR ''~'' \<notin> set t" by blast
    then show "\<not> is_close t" by (cases t) (auto simp: is_close_def)
  qed
  from close_tags_nested[OF ct this] eq have n: "nested [] pl" by simp
  from assms(3) have "check_commas cfg pl = Inr pl1"
    by (auto simp: code_record_commas_def split: sum.splits error.splits)
  from check_commas_Inr[OF this] eq check_balance_None
  have "count_open pl1 = count_close pl1" by blast
  with eq n show ?thesis by simp
qed

theorem balance_before_entity_resolution_witness:
  "CHR ''~'' \<notin> set clause_example
   \<and> read_TreeBank_end clause_example =
       Inr [''(ROOT'', ''(S'', ''(NE'', ''---'', ''FRANCE'', ''~NE'', ''(,'', '','', ''~,'',
            ''(SBR'', ''WHICH'', ''WAS'', ''AT'', ''WAR'', ''~SBR'', ''(,'', '','', ''~,'',
            ''(VP1'', ''(VBD'', ''ATTACKED'', ''~VBD'', ''(NE'', ''---'', ''GERMANY'', ''~NE'',
            ''~VP1'', ''(.'', ''.'', ''~.'', ''~S'', ''~ROOT'']
   \<and> code_record_commas (comma_example\<lparr>CommaEMax := 0\<rparr>)
        [''(ROOT'', ''(S'', ''(NE'', ''---'', ''FRANCE'', ''~NE'', ''(,'', '','', ''~,'',
         ''(SBR'', ''WHICH'', ''WAS'', ''AT'', ''WAR'', ''~SBR'', ''(,'', '','', ''~,'',
         ''(VP1'', ''(VBD'', ''ATTACKED'', ''~VBD'', ''(NE'', ''---'', ''GERMANY'', ''~NE'',
         ''~VP1'', ''(.'', ''.'', ''~.'', ''~S'', ''~ROOT'']
       = Inr [''(ROOT'', ''(S'', ''(NE'', ''---'', ''FRANCE'', ''~NE'', ''(,'', '','', ''~,'',
              ''(VP1'', ''(VBD'', ''ATTACKED'', ''~VBD'', ''(NE'', ''---'', ''GERMANY'', ''~NE'',
              ''~VP1'', ''(.'', ''.'', ''~.'', ''~S'', ''~ROOT'']
   \<and> count_open [''(ROOT'', ''(S'', ''(NE'', ''---'', ''FRANCE'', ''~NE'', ''(,'', '','', ''~,'',
              ''(VP1'', ''(VBD'', ''ATTACKED'', ''~VBD'', ''(NE'', ''---'', ''GERMANY'', ''~NE'',
              ''~VP1'', ''(.'', ''.'', ''~.'', ''~S'', ''~ROOT'']
     = count_close [''(ROOT'', ''(S'', ''(NE'', ''---'', ''FRANCE'', ''~NE'', ''(,'', '','', ''~,'',
              ''(VP1'', ''(VBD'', ''ATTACKED'', ''~VBD'', ''(NE'', ''---'', ''GERMANY'', ''~NE'',
              ''~VP1'', ''(.'', ''.'', ''~.'', ''~S'', ''~ROOT'']"
proof -
  let ?pl = "[''(ROOT'', ''(S'', ''(NE'', ''---'', ''FRANCE'', ''~NE'', ''(,'', '','', ''~,'',
            ''(SBR'', ''WHICH'', ''WAS'', ''AT'', ''WAR'', ''~SBR'', ''(,'', '','', ''~,'',
            ''(VP1'', ''(VBD'', ''ATTACKED'', ''~VBD'', ''(NE'', ''---'', ''GERMANY'', ''~NE'',
            ''~VP1'', ''(.'', ''.'', ''~.'', ''~S'', ''~ROOT'']"
  have h1: "CHR ''~'' \<notin> set clause_example" by code_simp
  have h2: "read_TreeBank_end clause_example = Inr ?pl" by code_simp
  have h3: "code_record_commas (comma_example\<lparr>CommaEMax := 0\<rparr>) ?pl
       = Inr [''(ROOT'', ''(S'', ''(NE'', ''---'', ''FRANCE'', ''~NE'', ''(,'', '','', ''~,'',
              ''(VP1'', ''(VBD'', ''ATTACKED'', ''~VBD'', ''(NE'', ''---'', ''GERMANY'', ''~NE'',
              ''~VP1'', ''(.'', ''.'', ''~.'', ''~S'', ''~ROOT'']" by code_simp
  from balance_before_entity_resolution[OF h1 h2 h3] h1 h2 h3 show ?thesis by blast
qed

text \<open>
  C6 as stated fails at the parse string \<open>unmatched_example\<close>: the sequence passes both
  checks, and after the clause elision the open marker \<open>(X\<close> has no close marker \<open>~X\<close>;
  the close marker that answers it is \<open>~,\<close>. The two removals of a dangling comma each
  take three tokens, here \<open>(, ~, ~X\<close> and \<open>(, (Y ~Y\<close>, and the counts stay equal.
\<close>

theorem unmatched_markers_reach_entity_resolution:
  "CHR ''~'' \<notin> set unmatched_example
   \<and> read_TreeBank_end unmatched_example =
       Inr [''(ROOT'', ''(S'', ''(X'', ''(,'', ''~,'', ''~X'', ''(A'', ''B'', ''~A'',
            ''(,'', ''(Y'', ''~Y'', ''~,'', ''(.'', ''.'', ''~.'', ''~S'', ''~ROOT'']
   \<and> code_record_commas comma_example
        [''(ROOT'', ''(S'', ''(X'', ''(,'', ''~,'', ''~X'', ''(A'', ''B'', ''~A'',
         ''(,'', ''(Y'', ''~Y'', ''~,'', ''(.'', ''.'', ''~.'', ''~S'', ''~ROOT'']
       = Inr [''(ROOT'', ''(S'', ''(X'', ''(A'', ''B'', ''~A'', ''~,'', ''(.'', ''.'', ''~.'',
              ''~S'', ''~ROOT'']
   \<and> \<not> nested [] [''(ROOT'', ''(S'', ''(X'', ''(A'', ''B'', ''~A'', ''~,'', ''(.'', ''.'',
                    ''~.'', ''~S'', ''~ROOT'']"
  by code_simp

end
